theory Spec2Isabelle
  imports Main "HOL-Library.Word"
begin

section \<open>The exporter's startup path (main.go)\<close>

text \<open>
  The development follows \<^verbatim>\<open>main.go\<close>: the configuration structs, the loading of the
  configuration file with its defaults, the construction of the collectors and the
  start of the process. Everything the program asks of its surroundings (the
  environment, the file system, the YAML decoder, the AWS session constructor, the
  signals and the HTTP server) is a field of one record, \<open>world\<close>; every result holds
  for all worlds unless a hypothesis says otherwise. Calls that reach outside the
  process are recorded, in program order, in a list of events returned next to the result.
  Log lines are not part of the model.
\<close>

subsection \<open>Configuration structs\<close>

text \<open>
  \<^verbatim>\<open>time.Duration\<close> is an \<^verbatim>\<open>int64\<close> counting nanoseconds. A \<^verbatim>\<open>*time.Duration\<close> is an
  option: \<open>None\<close> is the nil pointer. An embedded struct is a record extension, so the
  promoted fields are read as in Go (\<open>CacheTTL (RdsConfig config)\<close>).
\<close>

type_synonym Duration = "64 word"

definition Second :: Duration where
  "Second = 1000000000"

record BaseConfig =
  Enabled :: bool
  Interval :: "Duration option"
  CacheTTL :: "Duration option"

record RDSConfig = BaseConfig +
  Regions :: "string list"

record VPCConfig = BaseConfig +
  Timeout :: "Duration option"
  Regions :: "string list"

record Route53Config = BaseConfig +
  Timeout :: "Duration option"
  Region :: string

record EC2Config = BaseConfig +
  Timeout :: "Duration option"
  Regions :: "string list"

record Config =
  RdsConfig :: RDSConfig
  VpcConfig :: VPCConfig
  Route53Config :: Route53Config
  EC2Config :: EC2Config

text \<open>The value of \<^verbatim>\<open>var config Config\<close>: every field at its zero value.\<close>

definition zeroConfig :: Config where
  "zeroConfig =
     \<lparr>RdsConfig = \<lparr>Enabled = False, Interval = None, CacheTTL = None, RDSConfig.Regions = []\<rparr>,
      VpcConfig = \<lparr>Enabled = False, Interval = None, CacheTTL = None,
                   VPCConfig.Timeout = None, VPCConfig.Regions = []\<rparr>,
      Route53Config = \<lparr>Enabled = False, Interval = None, CacheTTL = None,
                       Route53Config.Timeout = None, Region = []\<rparr>,
      EC2Config = \<lparr>Enabled = False, Interval = None, CacheTTL = None,
                   EC2Config.Timeout = None, EC2Config.Regions = []\<rparr>\<rparr>"

definition durationPtr :: "Duration \<Rightarrow> Duration option" where
  "durationPtr duration = Some duration"

subsection \<open>The surroundings of the process\<close>

datatype kind = VPC | RDS | EC2 | Route53

text \<open>
  An error of \<^verbatim>\<open>yaml.Unmarshal\<close>: the bytes are not a YAML document, or they are one whose
  values do not fit the fields they are decoded into.
\<close>

datatype yaml_error = YamlSyntaxError | YamlTypeError

datatype session = Session string

text \<open>
  The exporters are built by constructors of the other files of the package; a
  collector is what its constructor was given.
\<close>

datatype collector =
    NewVPCExporter "session list" VPCConfig
  | NewRDSExporter "session list" RDSConfig
  | NewEC2Exporter "session list" EC2Config
  | NewRoute53Exporter session Route53Config
  | NewExporterMetrics

datatype event =
    ReadFile string
  | NewSession string
  | GoCollectLoop collector
  | MustRegister "collector list"
  | Handle string
  | GoListenAndServe string

text \<open>What ends the wait at the end of \<^verbatim>\<open>run\<close>: a signal, or the failure of the server.\<close>

datatype serve_event = TermSignal | ServerFailed

text \<open>
  \<open>environ\<close>: the environment variables that are set. \<open>executable\<close>: the path of the
  binary (the program never asks for it). \<open>readFile\<close>: \<^verbatim>\<open>ioutil.ReadFile\<close> as the
  operating system answers this process, \<open>None\<close> when it returns an error; a relative
  name is resolved by the operating system against the working directory.
  \<open>yamlUnmarshal file config\<close>: the value \<^verbatim>\<open>yaml.Unmarshal(file, &config)\<close> leaves in
  \<open>config\<close> and the error it returns. \<open>newSession region\<close>: \<^verbatim>\<open>session.NewSession\<close> for a
  configuration of that region, \<open>None\<close> when it returns an error. \<open>listenAddress\<close>,
  \<open>metricsPath\<close>: the parsed flags. \<open>serving\<close>: which channel of the final \<^verbatim>\<open>select\<close>
  is ready first, \<open>None\<close> when neither ever is.
\<close>

record world =
  environ :: "string \<Rightarrow> string option"
  executable :: string
  readFile :: "string \<Rightarrow> string option"
  yamlUnmarshal :: "string \<Rightarrow> Config \<Rightarrow> Config \<times> yaml_error option"
  newSession :: "string \<Rightarrow> session option"
  listenAddress :: string
  metricsPath :: string
  serving :: "serve_event option"

text \<open>\<^verbatim>\<open>os.Getenv\<close>: the empty string for a variable that is not set.\<close>

definition Getenv :: "world \<Rightarrow> string \<Rightarrow> string" where
  "Getenv w key = (case environ w key of None \<Rightarrow> [] | Some v \<Rightarrow> v)"

text \<open>
  A call returns, panics (\<^verbatim>\<open>session.Must\<close>; nothing in the program recovers), or
  waits forever (the \<^verbatim>\<open>select\<close> of \<^verbatim>\<open>run\<close>).
\<close>

datatype 'a outcome = Returns 'a | Panics | Blocks

type_synonym error = string

text \<open>Sequencing: the second step runs only when the first returns; the events add up.\<close>

definition andThen ::
  "'a outcome \<times> event list \<Rightarrow> ('a \<Rightarrow> 'b outcome \<times> event list) \<Rightarrow> 'b outcome \<times> event list" where
  "andThen m f =
     (case m of
        (Returns x, tr) \<Rightarrow> (case f x of (r, tr') \<Rightarrow> (r, tr @ tr'))
      | (Panics, tr) \<Rightarrow> (Panics, tr)
      | (Blocks, tr) \<Rightarrow> (Blocks, tr))"

subsection \<open>loadExporterConfiguration\<close>

text \<open>
  Lines 93 to 127: eleven assignments, each guarded by a nil test, in the order of the
  source. \<open>config\<close> is rebound by each as the Go variable is overwritten.
\<close>

definition applyDefaults :: "Config \<Rightarrow> Config" where
  "applyDefaults parsed =
    (let config = parsed;
         config = (if CacheTTL (RdsConfig config) = None
                   then config\<lparr>RdsConfig := (RdsConfig config)\<lparr>CacheTTL := durationPtr (35 * Second)\<rparr>\<rparr>
                   else config);
         config = (if CacheTTL (VpcConfig config) = None
                   then config\<lparr>VpcConfig := (VpcConfig config)\<lparr>CacheTTL := durationPtr (35 * Second)\<rparr>\<rparr>
                   else config);
         config = (if CacheTTL (Route53Config config) = None
                   then config\<lparr>Route53Config := (Route53Config config)\<lparr>CacheTTL := durationPtr (35 * Second)\<rparr>\<rparr>
                   else config);
         config = (if CacheTTL (EC2Config config) = None
                   then config\<lparr>EC2Config := (EC2Config config)\<lparr>CacheTTL := durationPtr (35 * Second)\<rparr>\<rparr>
                   else config);
         config = (if Interval (RdsConfig config) = None
                   then config\<lparr>RdsConfig := (RdsConfig config)\<lparr>Interval := durationPtr (15 * Second)\<rparr>\<rparr>
                   else config);
         config = (if Interval (VpcConfig config) = None
                   then config\<lparr>VpcConfig := (VpcConfig config)\<lparr>Interval := durationPtr (15 * Second)\<rparr>\<rparr>
                   else config);
         config = (if Interval (Route53Config config) = None
                   then config\<lparr>Route53Config := (Route53Config config)\<lparr>Interval := durationPtr (15 * Second)\<rparr>\<rparr>
                   else config);
         config = (if Interval (EC2Config config) = None
                   then config\<lparr>EC2Config := (EC2Config config)\<lparr>Interval := durationPtr (15 * Second)\<rparr>\<rparr>
                   else config);
         config = (if VPCConfig.Timeout (VpcConfig config) = None
                   then config\<lparr>VpcConfig := (VpcConfig config)\<lparr>VPCConfig.Timeout := durationPtr (10 * Second)\<rparr>\<rparr>
                   else config);
         config = (if Route53Config.Timeout (Route53Config config) = None
                   then config\<lparr>Route53Config := (Route53Config config)\<lparr>Route53Config.Timeout := durationPtr (10 * Second)\<rparr>\<rparr>
                   else config);
         config = (if EC2Config.Timeout (EC2Config config) = None
                   then config\<lparr>EC2Config := (EC2Config config)\<lparr>EC2Config.Timeout := durationPtr (10 * Second)\<rparr>\<rparr>
                   else config)
     in config)"

text \<open>
  The error of \<^verbatim>\<open>yaml.Unmarshal\<close> is dropped (line 91): only what the call left in
  \<open>config\<close> is used.
\<close>

definition loadExporterConfiguration :: "world \<Rightarrow> string \<Rightarrow> (error + Config) \<times> event list" where
  "loadExporterConfiguration w configFile =
     (case readFile w configFile of
        None \<Rightarrow> (Inl (''Could not load configuration file: '' @ configFile), [ReadFile configFile])
      | Some file \<Rightarrow>
          (let config = fst (yamlUnmarshal w file zeroConfig)
           in (Inr (applyDefaults config), [ReadFile configFile])))"

subsection \<open>setupCollectors\<close>

text \<open>
  The loop over the regions of a kind (lines 144 to 148, 156 to 160 and 168 to 172 are
  the same loop): \<^verbatim>\<open>session.Must\<close> panics at the first region whose session cannot be
  made.
\<close>

fun regionSessions :: "world \<Rightarrow> string list \<Rightarrow> session list \<Rightarrow> session list outcome \<times> event list" where
  "regionSessions w [] sessions = (Returns sessions, [])"
| "regionSessions w (region # regions) sessions =
     (case newSession w region of
        None \<Rightarrow> (Panics, [NewSession region])
      | Some sess \<Rightarrow>
          andThen (Returns (), [NewSession region])
            (\<lambda>_. regionSessions w regions (sessions @ [sess])))"

text \<open>The four blocks of \<^verbatim>\<open>setupCollectors\<close>, each guarded by the kind's \<open>Enabled\<close>.\<close>

definition setupVPC :: "world \<Rightarrow> Config \<Rightarrow> collector list \<Rightarrow> collector list outcome \<times> event list" where
  "setupVPC w config collectors =
     (if Enabled (VpcConfig config) then
        andThen (regionSessions w (VPCConfig.Regions (VpcConfig config)) [])
          (\<lambda>vpcSessions.
             let vpcExporter = NewVPCExporter vpcSessions (VpcConfig config)
             in (Returns (collectors @ [vpcExporter]), [GoCollectLoop vpcExporter]))
      else (Returns collectors, []))"

definition setupRDS :: "world \<Rightarrow> Config \<Rightarrow> collector list \<Rightarrow> collector list outcome \<times> event list" where
  "setupRDS w config collectors =
     (if Enabled (RdsConfig config) then
        andThen (regionSessions w (RDSConfig.Regions (RdsConfig config)) [])
          (\<lambda>rdsSessions.
             let rdsExporter = NewRDSExporter rdsSessions (RdsConfig config)
             in (Returns (collectors @ [rdsExporter]), [GoCollectLoop rdsExporter]))
      else (Returns collectors, []))"

definition setupEC2 :: "world \<Rightarrow> Config \<Rightarrow> collector list \<Rightarrow> collector list outcome \<times> event list" where
  "setupEC2 w config collectors =
     (if Enabled (EC2Config config) then
        andThen (regionSessions w (EC2Config.Regions (EC2Config config)) [])
          (\<lambda>ec2Sessions.
             let ec2Exporter = NewEC2Exporter ec2Sessions (EC2Config config)
             in (Returns (collectors @ [ec2Exporter]), [GoCollectLoop ec2Exporter]))
      else (Returns collectors, []))"

definition setupRoute53 :: "world \<Rightarrow> Config \<Rightarrow> collector list \<Rightarrow> collector list outcome \<times> event list" where
  "setupRoute53 w config collectors =
     (if Enabled (Route53Config config) then
        (case newSession w (Region (Route53Config config)) of
           None \<Rightarrow> (Panics, [NewSession (Region (Route53Config config))])
         | Some sess \<Rightarrow>
             (let r53Exporter = NewRoute53Exporter sess (Route53Config config)
              in (Returns (collectors @ [r53Exporter]),
                  [NewSession (Region (Route53Config config)), GoCollectLoop r53Exporter])))
      else (Returns collectors, []))"

definition setupCollectors :: "world \<Rightarrow> string \<Rightarrow> (error + collector list) outcome \<times> event list" where
  "setupCollectors w configFile =
     (case loadExporterConfiguration w configFile of
        (Inl err, tr) \<Rightarrow> (Returns (Inl err), tr)
      | (Inr config, tr) \<Rightarrow>
          andThen (Returns (), tr) (\<lambda>_.
          andThen (setupVPC w config []) (\<lambda>collectors.
          andThen (setupRDS w config collectors) (\<lambda>collectors.
          andThen (setupEC2 w config collectors) (\<lambda>collectors.
          andThen (setupRoute53 w config collectors) (\<lambda>collectors.
            (Returns (Inr collectors), [])))))))"

subsection \<open>run\<close>

definition CONFIG_FILE_PATH :: string where
  "CONFIG_FILE_PATH = ''./aws-resource-exporter-config.yaml''"

text \<open>Lines 201 to 206: the path handed to \<^verbatim>\<open>setupCollectors\<close>.\<close>

definition configFileOf :: "world \<Rightarrow> string" where
  "configFileOf w =
     (let path = Getenv w ''AWS_RESOURCE_EXPORTER_CONFIG_FILE''
      in if path \<noteq> [] then path else CONFIG_FILE_PATH)"

text \<open>
  The exit status of the process, or a panic, or no return. After the registrations the
  server is started on a goroutine of its own and \<^verbatim>\<open>run\<close> waits in a \<^verbatim>\<open>select\<close> whose
  two cases both return, so the enclosing \<^verbatim>\<open>for\<close> runs its body at most once: status 0
  on a signal, 1 when the server fails, and no return while neither happens.
\<close>

definition run :: "world \<Rightarrow> int outcome \<times> event list" where
  "run w =
     (let configFile = configFileOf w in
      andThen (setupCollectors w configFile)
        (\<lambda>res. case res of
            Inl err \<Rightarrow> (Returns 1, [])
          | Inr cs \<Rightarrow>
              (let collectors = cs @ [NewExporterMetrics]
               in andThen
                    (Returns (),
                     [MustRegister collectors, Handle (metricsPath w), Handle ''/'',
                      GoListenAndServe (listenAddress w)])
                    (\<lambda>_. case serving w of
                        Some TermSignal \<Rightarrow> (Returns 0, [])
                      | Some ServerFailed \<Rightarrow> (Returns 1, [])
                      | None \<Rightarrow> (Blocks, [])))))"

subsection \<open>Reading configurations and event lists\<close>

fun collectorKind :: "collector \<Rightarrow> kind option" where
  "collectorKind (NewVPCExporter _ _) = Some VPC"
| "collectorKind (NewRDSExporter _ _) = Some RDS"
| "collectorKind (NewEC2Exporter _ _) = Some EC2"
| "collectorKind (NewRoute53Exporter _ _) = Some Route53"
| "collectorKind NewExporterMetrics = None"

fun kindEnabled :: "Config \<Rightarrow> kind \<Rightarrow> bool" where
  "kindEnabled config VPC = Enabled (VpcConfig config)"
| "kindEnabled config RDS = Enabled (RdsConfig config)"
| "kindEnabled config EC2 = Enabled (EC2Config config)"
| "kindEnabled config Route53 = Enabled (Route53Config config)"

text \<open>The regions a kind asks a session for: Route53 has a single one.\<close>

fun kindRegions :: "Config \<Rightarrow> kind \<Rightarrow> string list" where
  "kindRegions config VPC = VPCConfig.Regions (VpcConfig config)"
| "kindRegions config RDS = RDSConfig.Regions (RdsConfig config)"
| "kindRegions config EC2 = EC2Config.Regions (EC2Config config)"
| "kindRegions config Route53 = [Region (Route53Config config)]"

text \<open>The kinds whose refresh loop an event list starts, and the kinds of a list of collectors.\<close>

fun loopKinds :: "event list \<Rightarrow> kind list" where
  "loopKinds [] = []"
| "loopKinds (GoCollectLoop c # tr) =
     (case collectorKind c of None \<Rightarrow> loopKinds tr | Some k \<Rightarrow> k # loopKinds tr)"
| "loopKinds (_ # tr) = loopKinds tr"

fun collectorKinds :: "collector list \<Rightarrow> kind list" where
  "collectorKinds [] = []"
| "collectorKinds (c # cs) =
     (case collectorKind c of None \<Rightarrow> collectorKinds cs | Some k \<Rightarrow> k # collectorKinds cs)"

text \<open>The collectors handed to the registry, the files read, and the events of the listener.\<close>

fun registered :: "event list \<Rightarrow> collector list" where
  "registered [] = []"
| "registered (MustRegister cs # tr) = cs @ registered tr"
| "registered (_ # tr) = registered tr"

fun filesRead :: "event list \<Rightarrow> string list" where
  "filesRead [] = []"
| "filesRead (ReadFile path # tr) = path # filesRead tr"
| "filesRead (_ # tr) = filesRead tr"

fun handlersRegistered :: "event list \<Rightarrow> string list" where
  "handlersRegistered [] = []"
| "handlersRegistered (Handle pattern # tr) = pattern # handlersRegistered tr"
| "handlersRegistered (_ # tr) = handlersRegistered tr"

fun listenCalls :: "event list \<Rightarrow> string list" where
  "listenCalls [] = []"
| "listenCalls (GoListenAndServe addr # tr) = addr # listenCalls tr"
| "listenCalls (_ # tr) = listenCalls tr"

text \<open>The events of the four blocks of \<^verbatim>\<open>setupCollectors\<close>: sessions and refresh loops.\<close>

fun setupEvent :: "event \<Rightarrow> bool" where
  "setupEvent (NewSession _) = True"
| "setupEvent (GoCollectLoop _) = True"
| "setupEvent _ = False"

subsection \<open>The default path as the specification words it\<close>

text \<open>
  The specification places the default configuration file next to the executable. This
  is that reading, written down to be compared with \<open>configFileOf\<close>: the file of the
  default name in the directory of the binary.
\<close>

definition dirname :: "string \<Rightarrow> string" where
  "dirname path = rev (tl (dropWhile (\<lambda>c. c \<noteq> CHR ''/'') (rev path)))"

definition specConfigFileOf :: "world \<Rightarrow> string" where
  "specConfigFileOf w =
     (let path = Getenv w ''AWS_RESOURCE_EXPORTER_CONFIG_FILE''
      in if path \<noteq> [] then path
         else dirname (executable w) @ ''/aws-resource-exporter-config.yaml'')"

subsection \<open>The nil test, as a function\<close>

text \<open>The Go idiom \<^verbatim>\<open>if p == nil { p = durationPtr(d) }\<close>, as a function of the pointer.\<close>

definition orDefault :: "Duration option \<Rightarrow> Duration \<Rightarrow> Duration option" where
  "orDefault p d = (case p of None \<Rightarrow> Some d | Some v \<Rightarrow> Some v)"

subsection \<open>Concrete worlds\<close>

text \<open>
  A configuration file that enables only the VPC kind, for two regions, with an interval
  of one second; the decoder of \<open>sampleWorld\<close> reads it as \<open>sampleParsed\<close> and rejects
  every other input as not being YAML. No variable is set, every session can be made,
  and a signal ends the process.
\<close>

definition sampleYaml :: string where
  "sampleYaml = ''vpc: {enabled: true, interval: 1s, regions: [us-east-1, us-west-2]}''"

definition sampleParsed :: Config where
  "sampleParsed =
     zeroConfig\<lparr>VpcConfig := (VpcConfig zeroConfig)
       \<lparr>Enabled := True, Interval := Some (1 * Second),
        VPCConfig.Regions := [''us-east-1'', ''us-west-2'']\<rparr>\<rparr>"

definition sampleWorld :: world where
  "sampleWorld =
     \<lparr>environ = (\<lambda>_. None),
      executable = ''/opt/exporter/aws-resource-exporter'',
      readFile = (\<lambda>path. if path = CONFIG_FILE_PATH then Some sampleYaml else None),
      yamlUnmarshal = (\<lambda>file config.
        if file = sampleYaml then (sampleParsed, None) else (config, Some YamlSyntaxError)),
      newSession = (\<lambda>region. Some (Session region)),
      listenAddress = '':9115'',
      metricsPath = ''/metrics'',
      serving = Some TermSignal\<rparr>"

text \<open>The same, with a file that is not YAML at the default path.\<close>

definition brokenWorld :: world where
  "brokenWorld =
     sampleWorld\<lparr>readFile := (\<lambda>path. if path = CONFIG_FILE_PATH then Some ''{{'' else None)\<rparr>"

text \<open>
  A file whose \<^verbatim>\<open>interval\<close> is not a duration: the decoder fills the fields it can and
  returns a type error.
\<close>

definition typeErrorYaml :: string where
  "typeErrorYaml = ''vpc: {enabled: true, interval: soon}''"

definition typeErrorWorld :: world where
  "typeErrorWorld =
     sampleWorld
       \<lparr>readFile := (\<lambda>path. if path = CONFIG_FILE_PATH then Some typeErrorYaml else None),
        yamlUnmarshal := (\<lambda>file config.
          if file = typeErrorYaml
          then (config\<lparr>VpcConfig := (VpcConfig config)\<lparr>Enabled := True\<rparr>\<rparr>, Some YamlTypeError)
          else (config, Some YamlSyntaxError))\<rparr>"

text \<open>No file can be read.\<close>

definition missingWorld :: world where
  "missingWorld = sampleWorld\<lparr>readFile := (\<lambda>_. None)\<rparr>"

text \<open>No session can be made for the second region of the file.\<close>

definition failingRegionWorld :: world where
  "failingRegionWorld =
     sampleWorld\<lparr>newSession := (\<lambda>region.
       if region = ''us-west-2'' then None else Some (Session region))\<rparr>"

text \<open>
  The process is started from another directory than the one of the binary: the file
  lies next to the binary, and the relative default name finds nothing.
\<close>

definition elsewhereWorld :: world where
  "elsewhereWorld =
     sampleWorld\<lparr>readFile := (\<lambda>path.
       if path = ''/opt/exporter/aws-resource-exporter-config.yaml'' then Some sampleYaml
       else None)\<rparr>"

text \<open>The variable names a file of its own.\<close>

definition overrideWorld :: world where
  "overrideWorld =
     sampleWorld
       \<lparr>environ := (\<lambda>key.
          if key = ''AWS_RESOURCE_EXPORTER_CONFIG_FILE'' then Some ''/etc/exporter.yaml'' else None),
        readFile := (\<lambda>path. if path = ''/etc/exporter.yaml'' then Some sampleYaml else None)\<rparr>"

section \<open>Properties\<close>

subsection \<open>The defaults in closed form\<close>

lemma step_rds_ttl:
  "(if CacheTTL (RdsConfig c) = None
    then c\<lparr>RdsConfig := (RdsConfig c)\<lparr>CacheTTL := durationPtr d\<rparr>\<rparr> else c)
   = c\<lparr>RdsConfig := (RdsConfig c)\<lparr>CacheTTL := orDefault (CacheTTL (RdsConfig c)) d\<rparr>\<rparr>"
  by (cases "CacheTTL (RdsConfig c)") (simp_all add: orDefault_def durationPtr_def)

lemma step_vpc_ttl:
  "(if CacheTTL (VpcConfig c) = None
    then c\<lparr>VpcConfig := (VpcConfig c)\<lparr>CacheTTL := durationPtr d\<rparr>\<rparr> else c)
   = c\<lparr>VpcConfig := (VpcConfig c)\<lparr>CacheTTL := orDefault (CacheTTL (VpcConfig c)) d\<rparr>\<rparr>"
  by (cases "CacheTTL (VpcConfig c)") (simp_all add: orDefault_def durationPtr_def)

lemma step_r53_ttl:
  "(if CacheTTL (Route53Config c) = None
    then c\<lparr>Route53Config := (Route53Config c)\<lparr>CacheTTL := durationPtr d\<rparr>\<rparr> else c)
   = c\<lparr>Route53Config := (Route53Config c)\<lparr>CacheTTL := orDefault (CacheTTL (Route53Config c)) d\<rparr>\<rparr>"
  by (cases "CacheTTL (Route53Config c)") (simp_all add: orDefault_def durationPtr_def)

lemma step_ec2_ttl:
  "(if CacheTTL (EC2Config c) = None
    then c\<lparr>EC2Config := (EC2Config c)\<lparr>CacheTTL := durationPtr d\<rparr>\<rparr> else c)
   = c\<lparr>EC2Config := (EC2Config c)\<lparr>CacheTTL := orDefault (CacheTTL (EC2Config c)) d\<rparr>\<rparr>"
  by (cases "CacheTTL (EC2Config c)") (simp_all add: orDefault_def durationPtr_def)

lemma step_rds_interval:
  "(if Interval (RdsConfig c) = None
    then c\<lparr>RdsConfig := (RdsConfig c)\<lparr>Interval := durationPtr d\<rparr>\<rparr> else c)
   = c\<lparr>RdsConfig := (RdsConfig c)\<lparr>Interval := orDefault (Interval (RdsConfig c)) d\<rparr>\<rparr>"
  by (cases "Interval (RdsConfig c)") (simp_all add: orDefault_def durationPtr_def)

lemma step_vpc_interval:
  "(if Interval (VpcConfig c) = None
    then c\<lparr>VpcConfig := (VpcConfig c)\<lparr>Interval := durationPtr d\<rparr>\<rparr> else c)
   = c\<lparr>VpcConfig := (VpcConfig c)\<lparr>Interval := orDefault (Interval (VpcConfig c)) d\<rparr>\<rparr>"
  by (cases "Interval (VpcConfig c)") (simp_all add: orDefault_def durationPtr_def)

lemma step_r53_interval:
  "(if Interval (Route53Config c) = None
    then c\<lparr>Route53Config := (Route53Config c)\<lparr>Interval := durationPtr d\<rparr>\<rparr> else c)
   = c\<lparr>Route53Config := (Route53Config c)\<lparr>Interval := orDefault (Interval (Route53Config c)) d\<rparr>\<rparr>"
  by (cases "Interval (Route53Config c)") (simp_all add: orDefault_def durationPtr_def)

lemma step_ec2_interval:
  "(if Interval (EC2Config c) = None
    then c\<lparr>EC2Config := (EC2Config c)\<lparr>Interval := durationPtr d\<rparr>\<rparr> else c)
   = c\<lparr>EC2Config := (EC2Config c)\<lparr>Interval := orDefault (Interval (EC2Config c)) d\<rparr>\<rparr>"
  by (cases "Interval (EC2Config c)") (simp_all add: orDefault_def durationPtr_def)

lemma step_vpc_timeout:
  "(if VPCConfig.Timeout (VpcConfig c) = None
    then c\<lparr>VpcConfig := (VpcConfig c)\<lparr>VPCConfig.Timeout := durationPtr d\<rparr>\<rparr> else c)
   = c\<lparr>VpcConfig := (VpcConfig c)
        \<lparr>VPCConfig.Timeout := orDefault (VPCConfig.Timeout (VpcConfig c)) d\<rparr>\<rparr>"
  by (cases "VPCConfig.Timeout (VpcConfig c)") (simp_all add: orDefault_def durationPtr_def)

lemma step_r53_timeout:
  "(if Route53Config.Timeout (Route53Config c) = None
    then c\<lparr>Route53Config := (Route53Config c)\<lparr>Route53Config.Timeout := durationPtr d\<rparr>\<rparr> else c)
   = c\<lparr>Route53Config := (Route53Config c)
        \<lparr>Route53Config.Timeout := orDefault (Route53Config.Timeout (Route53Config c)) d\<rparr>\<rparr>"
  by (cases "Route53Config.Timeout (Route53Config c)") (simp_all add: orDefault_def durationPtr_def)

lemma step_ec2_timeout:
  "(if EC2Config.Timeout (EC2Config c) = None
    then c\<lparr>EC2Config := (EC2Config c)\<lparr>EC2Config.Timeout := durationPtr d\<rparr>\<rparr> else c)
   = c\<lparr>EC2Config := (EC2Config c)
        \<lparr>EC2Config.Timeout := orDefault (EC2Config.Timeout (EC2Config c)) d\<rparr>\<rparr>"
  by (cases "EC2Config.Timeout (EC2Config c)") (simp_all add: orDefault_def durationPtr_def)

lemmas default_steps =
  step_rds_ttl step_vpc_ttl step_r53_ttl step_ec2_ttl
  step_rds_interval step_vpc_interval step_r53_interval step_ec2_interval
  step_vpc_timeout step_r53_timeout step_ec2_timeout

lemma applyDefaults_closed:
  "applyDefaults c =
    \<lparr>RdsConfig = (RdsConfig c)
       \<lparr>CacheTTL := orDefault (CacheTTL (RdsConfig c)) (35 * Second),
        Interval := orDefault (Interval (RdsConfig c)) (15 * Second)\<rparr>,
     VpcConfig = (VpcConfig c)
       \<lparr>CacheTTL := orDefault (CacheTTL (VpcConfig c)) (35 * Second),
        Interval := orDefault (Interval (VpcConfig c)) (15 * Second),
        VPCConfig.Timeout := orDefault (VPCConfig.Timeout (VpcConfig c)) (10 * Second)\<rparr>,
     Route53Config = (Route53Config c)
       \<lparr>CacheTTL := orDefault (CacheTTL (Route53Config c)) (35 * Second),
        Interval := orDefault (Interval (Route53Config c)) (15 * Second),
        Route53Config.Timeout := orDefault (Route53Config.Timeout (Route53Config c)) (10 * Second)\<rparr>,
     EC2Config = (EC2Config c)
       \<lparr>CacheTTL := orDefault (CacheTTL (EC2Config c)) (35 * Second),
        Interval := orDefault (Interval (EC2Config c)) (15 * Second),
        EC2Config.Timeout := orDefault (EC2Config.Timeout (EC2Config c)) (10 * Second)\<rparr>\<rparr>"
  unfolding applyDefaults_def
  by (simp add: default_steps Let_def)

lemma orDefault_simps:
  "orDefault None d = Some d"
  "orDefault (Some v) d = Some v"
  by (simp_all add: orDefault_def)

lemma orDefault_idem: "orDefault (orDefault p d) d' = orDefault p d"
  by (cases p) (simp_all add: orDefault_def)

lemma load_readable:
  "readFile w configFile = Some file \<Longrightarrow>
   loadExporterConfiguration w configFile =
     (Inr (applyDefaults (fst (yamlUnmarshal w file zeroConfig))), [ReadFile configFile])"
  by (simp add: loadExporterConfiguration_def)

lemma load_unreadable:
  "readFile w configFile = None \<Longrightarrow>
   loadExporterConfiguration w configFile =
     (Inl (''Could not load configuration file: '' @ configFile), [ReadFile configFile])"
  by (simp add: loadExporterConfiguration_def)

lemma sampleWorld_simps:
  "environ sampleWorld = (\<lambda>_. None)"
  "executable sampleWorld = ''/opt/exporter/aws-resource-exporter''"
  "readFile sampleWorld CONFIG_FILE_PATH = Some sampleYaml"
  "yamlUnmarshal sampleWorld sampleYaml config = (sampleParsed, None)"
  "newSession sampleWorld region = Some (Session region)"
  "listenAddress sampleWorld = '':9115''"
  "metricsPath sampleWorld = ''/metrics''"
  "serving sampleWorld = Some TermSignal"
  by (simp_all add: sampleWorld_def)

subsection \<open>Claims about loadExporterConfiguration\<close>

text \<open>
  C1. Whatever the decoder leaves in the configuration, the loaded configuration has,
  for each of the four kinds, the cache TTL and the interval of the file when the file
  gives them and 35 s and 15 s when it does not, and for the three kinds that have a
  timeout (vpc, route53, ec2) the timeout of the file, or 10 s.
\<close>

theorem load_defaults:
  assumes "readFile w configFile = Some file"
    and "fst (yamlUnmarshal w file zeroConfig) = parsed"
  shows "\<exists>config. fst (loadExporterConfiguration w configFile) = Inr config \<and>
    CacheTTL (RdsConfig config) =
      Some (case CacheTTL (RdsConfig parsed) of None \<Rightarrow> 35 * Second | Some d \<Rightarrow> d) \<and>
    CacheTTL (VpcConfig config) =
      Some (case CacheTTL (VpcConfig parsed) of None \<Rightarrow> 35 * Second | Some d \<Rightarrow> d) \<and>
    CacheTTL (Route53Config config) =
      Some (case CacheTTL (Route53Config parsed) of None \<Rightarrow> 35 * Second | Some d \<Rightarrow> d) \<and>
    CacheTTL (EC2Config config) =
      Some (case CacheTTL (EC2Config parsed) of None \<Rightarrow> 35 * Second | Some d \<Rightarrow> d) \<and>
    Interval (RdsConfig config) =
      Some (case Interval (RdsConfig parsed) of None \<Rightarrow> 15 * Second | Some d \<Rightarrow> d) \<and>
    Interval (VpcConfig config) =
      Some (case Interval (VpcConfig parsed) of None \<Rightarrow> 15 * Second | Some d \<Rightarrow> d) \<and>
    Interval (Route53Config config) =
      Some (case Interval (Route53Config parsed) of None \<Rightarrow> 15 * Second | Some d \<Rightarrow> d) \<and>
    Interval (EC2Config config) =
      Some (case Interval (EC2Config parsed) of None \<Rightarrow> 15 * Second | Some d \<Rightarrow> d) \<and>
    VPCConfig.Timeout (VpcConfig config) =
      Some (case VPCConfig.Timeout (VpcConfig parsed) of None \<Rightarrow> 10 * Second | Some d \<Rightarrow> d) \<and>
    Route53Config.Timeout (Route53Config config) =
      Some (case Route53Config.Timeout (Route53Config parsed) of
              None \<Rightarrow> 10 * Second | Some d \<Rightarrow> d) \<and>
    EC2Config.Timeout (EC2Config config) =
      Some (case EC2Config.Timeout (EC2Config parsed) of None \<Rightarrow> 10 * Second | Some d \<Rightarrow> d)"
proof -
  have "fst (loadExporterConfiguration w configFile) = Inr (applyDefaults parsed)"
    using assms by (simp add: load_readable)
  moreover have "\<And>p d. orDefault p d = Some (case p of None \<Rightarrow> d | Some v \<Rightarrow> v)"
    by (simp add: orDefault_def split: option.split)
  ultimately show ?thesis
    by (simp add: applyDefaults_closed)
qed

theorem load_defaults_witness:
  "readFile sampleWorld CONFIG_FILE_PATH = Some sampleYaml \<and>
   fst (yamlUnmarshal sampleWorld sampleYaml zeroConfig) = sampleParsed \<and>
   (\<exists>config. fst (loadExporterConfiguration sampleWorld CONFIG_FILE_PATH) = Inr config \<and>
      Interval (VpcConfig config) = Some (1 * Second) \<and>
      CacheTTL (VpcConfig config) = Some (35 * Second) \<and>
      VPCConfig.Timeout (VpcConfig config) = Some (10 * Second) \<and>
      Interval (RdsConfig config) = Some (15 * Second) \<and>
      CacheTTL (RdsConfig config) = Some (35 * Second))"
proof -
  have r: "readFile sampleWorld CONFIG_FILE_PATH = Some sampleYaml"
    by (simp add: sampleWorld_simps)
  have p: "fst (yamlUnmarshal sampleWorld sampleYaml zeroConfig) = sampleParsed"
    by (simp add: sampleWorld_simps)
  from load_defaults [OF r p] r p show ?thesis
    by (auto simp add: sampleParsed_def zeroConfig_def)
qed

lemma brokenWorld_simps:
  "readFile brokenWorld CONFIG_FILE_PATH = Some ''{{''"
  "yamlUnmarshal brokenWorld ''{{'' config = (config, Some YamlSyntaxError)"
  by (simp_all add: brokenWorld_def sampleWorld_def sampleYaml_def)

lemma typeErrorWorld_simps:
  "readFile typeErrorWorld CONFIG_FILE_PATH = Some typeErrorYaml"
  "yamlUnmarshal typeErrorWorld typeErrorYaml config =
     (config\<lparr>VpcConfig := (VpcConfig config)\<lparr>Enabled := True\<rparr>\<rparr>, Some YamlTypeError)"
  by (simp_all add: typeErrorWorld_def sampleWorld_def)

lemma missingWorld_simps:
  "readFile missingWorld path = None"
  "environ missingWorld = (\<lambda>_. None)"
  by (simp_all add: missingWorld_def sampleWorld_def)

text \<open>
  C2, as the code has it. The load fails exactly when the file cannot be read. A file
  that can be read always gives a configuration, the defaults applied to whatever the
  decoder left, whether the decoder returned no error, a type error or a syntax error:
  that the bytes are not structured data at all is not an error of the load.
\<close>

theorem load_fails_iff_unreadable:
  "((\<exists>err. fst (loadExporterConfiguration w configFile) = Inl err) \<longleftrightarrow>
      readFile w configFile = None) \<and>
   (\<forall>file config yerr.
      readFile w configFile = Some file \<and> yamlUnmarshal w file zeroConfig = (config, yerr) \<longrightarrow>
      fst (loadExporterConfiguration w configFile) = Inr (applyDefaults config))"
  by (cases "readFile w configFile") (simp_all add: load_readable load_unreadable)

theorem load_fails_iff_unreadable_witness:
  "readFile typeErrorWorld CONFIG_FILE_PATH = Some typeErrorYaml \<and>
   snd (yamlUnmarshal typeErrorWorld typeErrorYaml zeroConfig) = Some YamlTypeError \<and>
   (\<exists>config. fst (loadExporterConfiguration typeErrorWorld CONFIG_FILE_PATH) = Inr config \<and>
      Enabled (VpcConfig config) \<and> Interval (VpcConfig config) = Some (15 * Second)) \<and>
   readFile missingWorld CONFIG_FILE_PATH = None \<and>
   (\<exists>err. fst (loadExporterConfiguration missingWorld CONFIG_FILE_PATH) = Inl err)"
proof -
  have r: "readFile typeErrorWorld CONFIG_FILE_PATH = Some typeErrorYaml"
    by (simp add: typeErrorWorld_simps)
  have "fst (loadExporterConfiguration typeErrorWorld CONFIG_FILE_PATH) =
        Inr (applyDefaults (zeroConfig\<lparr>VpcConfig := (VpcConfig zeroConfig)\<lparr>Enabled := True\<rparr>\<rparr>))"
    using load_fails_iff_unreadable [of typeErrorWorld CONFIG_FILE_PATH] r
    by (simp add: typeErrorWorld_simps)
  moreover have "\<exists>err. fst (loadExporterConfiguration missingWorld CONFIG_FILE_PATH) = Inl err"
    using load_fails_iff_unreadable [of missingWorld CONFIG_FILE_PATH]
    by (simp add: missingWorld_simps)
  ultimately show ?thesis
    using r by (simp add: typeErrorWorld_simps missingWorld_simps applyDefaults_closed
        zeroConfig_def orDefault_simps)
qed

text \<open>
  C2 as stated fails: the file of \<open>brokenWorld\<close> is read, the decoder rejects it as not
  being YAML, and the load returns a configuration and no error.
\<close>

theorem load_invalid_yaml_counterexample:
  "readFile brokenWorld CONFIG_FILE_PATH = Some ''{{'' \<and>
   yamlUnmarshal brokenWorld ''{{'' zeroConfig = (zeroConfig, Some YamlSyntaxError) \<and>
   fst (loadExporterConfiguration brokenWorld CONFIG_FILE_PATH) = Inr (applyDefaults zeroConfig) \<and>
   \<not> isl (fst (loadExporterConfiguration brokenWorld CONFIG_FILE_PATH))"
  by (simp add: brokenWorld_simps loadExporterConfiguration_def)

text \<open>
  C4. Whenever the file can be read the load succeeds, and the interval and the cache
  TTL of each of the four kinds are then non-nil. Nothing is asked of the decoder: the
  file may fail to parse.
\<close>

theorem load_nonnil:
  assumes "readFile w configFile = Some file"
  shows "\<exists>config. fst (loadExporterConfiguration w configFile) = Inr config \<and>
    Interval (RdsConfig config) \<noteq> None \<and> CacheTTL (RdsConfig config) \<noteq> None \<and>
    Interval (VpcConfig config) \<noteq> None \<and> CacheTTL (VpcConfig config) \<noteq> None \<and>
    Interval (Route53Config config) \<noteq> None \<and> CacheTTL (Route53Config config) \<noteq> None \<and>
    Interval (EC2Config config) \<noteq> None \<and> CacheTTL (EC2Config config) \<noteq> None"
proof -
  have "\<And>p d. orDefault p d \<noteq> None"
    by (simp add: orDefault_def split: option.split)
  then show ?thesis
    using assms by (simp add: load_readable applyDefaults_closed)
qed

theorem load_nonnil_witness:
  "readFile brokenWorld CONFIG_FILE_PATH = Some ''{{'' \<and>
   snd (yamlUnmarshal brokenWorld ''{{'' zeroConfig) = Some YamlSyntaxError \<and>
   (\<exists>config. fst (loadExporterConfiguration brokenWorld CONFIG_FILE_PATH) = Inr config \<and>
      Interval (RdsConfig config) \<noteq> None \<and> CacheTTL (RdsConfig config) \<noteq> None \<and>
      Interval (VpcConfig config) \<noteq> None \<and> CacheTTL (VpcConfig config) \<noteq> None \<and>
      Interval (Route53Config config) \<noteq> None \<and> CacheTTL (Route53Config config) \<noteq> None \<and>
      Interval (EC2Config config) \<noteq> None \<and> CacheTTL (EC2Config config) \<noteq> None)"
proof -
  have r: "readFile brokenWorld CONFIG_FILE_PATH = Some ''{{''"
    by (simp add: brokenWorld_simps)
  from load_nonnil [OF r] r show ?thesis
    by (simp add: brokenWorld_simps)
qed

text \<open>
  C5. The loaded configuration is a function of the bytes of the file (and of the
  decoder): two loads that read the same bytes, from whatever path and in whatever
  surroundings, return the same result. The loaded configuration is a fixed point of
  the defaulting step, and so is every configuration the step has been applied to.
\<close>

theorem load_deterministic_idempotent:
  assumes "readFile w configFile = Some file"
    and "readFile w' configFile' = Some file"
    and "yamlUnmarshal w' = yamlUnmarshal w"
  shows "fst (loadExporterConfiguration w' configFile') =
           fst (loadExporterConfiguration w configFile) \<and>
         (\<exists>config. fst (loadExporterConfiguration w configFile) = Inr config \<and>
            applyDefaults config = config) \<and>
         applyDefaults (applyDefaults c) = applyDefaults c"
proof -
  have idem: "\<And>x. applyDefaults (applyDefaults x) = applyDefaults x"
    by (simp add: applyDefaults_closed orDefault_idem)
  show ?thesis
    using assms by (simp add: load_readable idem)
qed


lemma overrideWorld_simps:
  "environ overrideWorld ''AWS_RESOURCE_EXPORTER_CONFIG_FILE'' = Some ''/etc/exporter.yaml''"
  "readFile overrideWorld ''/etc/exporter.yaml'' = Some sampleYaml"
  "yamlUnmarshal overrideWorld = yamlUnmarshal sampleWorld"
  by (simp_all add: overrideWorld_def)

theorem load_deterministic_idempotent_witness:
  "readFile sampleWorld CONFIG_FILE_PATH = Some sampleYaml \<and>
   readFile overrideWorld ''/etc/exporter.yaml'' = Some sampleYaml \<and>
   yamlUnmarshal overrideWorld = yamlUnmarshal sampleWorld \<and>
   fst (loadExporterConfiguration overrideWorld ''/etc/exporter.yaml'') =
     fst (loadExporterConfiguration sampleWorld CONFIG_FILE_PATH) \<and>
   (\<exists>config. fst (loadExporterConfiguration sampleWorld CONFIG_FILE_PATH) = Inr config \<and>
      applyDefaults config = config) \<and>
   applyDefaults (applyDefaults sampleParsed) = applyDefaults sampleParsed"
proof -
  have r: "readFile sampleWorld CONFIG_FILE_PATH = Some sampleYaml"
    by (simp add: sampleWorld_simps)
  have r': "readFile overrideWorld ''/etc/exporter.yaml'' = Some sampleYaml"
    by (simp add: overrideWorld_simps)
  have u: "yamlUnmarshal overrideWorld = yamlUnmarshal sampleWorld"
    by (simp add: overrideWorld_simps)
  from load_deterministic_idempotent [OF r r' u, of sampleParsed] r r' u
  show ?thesis by simp
qed

text \<open>
  C6. The load changes nothing the decoder has set: the enabled flags and the regions of
  the four kinds are those of the parsed configuration, and so is every interval, cache
  TTL and timeout that is not nil after parsing. Only nil durations are written: a
  parsed configuration without a nil duration is returned as it is.
\<close>

theorem load_frame:
  assumes "readFile w configFile = Some file"
    and "fst (yamlUnmarshal w file zeroConfig) = parsed"
  shows "\<exists>config. fst (loadExporterConfiguration w configFile) = Inr config \<and>
    Enabled (RdsConfig config) = Enabled (RdsConfig parsed) \<and>
    Enabled (VpcConfig config) = Enabled (VpcConfig parsed) \<and>
    Enabled (Route53Config config) = Enabled (Route53Config parsed) \<and>
    Enabled (EC2Config config) = Enabled (EC2Config parsed) \<and>
    RDSConfig.Regions (RdsConfig config) = RDSConfig.Regions (RdsConfig parsed) \<and>
    VPCConfig.Regions (VpcConfig config) = VPCConfig.Regions (VpcConfig parsed) \<and>
    Region (Route53Config config) = Region (Route53Config parsed) \<and>
    EC2Config.Regions (EC2Config config) = EC2Config.Regions (EC2Config parsed) \<and>
    (CacheTTL (RdsConfig parsed) \<noteq> None \<longrightarrow>
       CacheTTL (RdsConfig config) = CacheTTL (RdsConfig parsed)) \<and>
    (CacheTTL (VpcConfig parsed) \<noteq> None \<longrightarrow>
       CacheTTL (VpcConfig config) = CacheTTL (VpcConfig parsed)) \<and>
    (CacheTTL (Route53Config parsed) \<noteq> None \<longrightarrow>
       CacheTTL (Route53Config config) = CacheTTL (Route53Config parsed)) \<and>
    (CacheTTL (EC2Config parsed) \<noteq> None \<longrightarrow>
       CacheTTL (EC2Config config) = CacheTTL (EC2Config parsed)) \<and>
    (Interval (RdsConfig parsed) \<noteq> None \<longrightarrow>
       Interval (RdsConfig config) = Interval (RdsConfig parsed)) \<and>
    (Interval (VpcConfig parsed) \<noteq> None \<longrightarrow>
       Interval (VpcConfig config) = Interval (VpcConfig parsed)) \<and>
    (Interval (Route53Config parsed) \<noteq> None \<longrightarrow>
       Interval (Route53Config config) = Interval (Route53Config parsed)) \<and>
    (Interval (EC2Config parsed) \<noteq> None \<longrightarrow>
       Interval (EC2Config config) = Interval (EC2Config parsed)) \<and>
    (VPCConfig.Timeout (VpcConfig parsed) \<noteq> None \<longrightarrow>
       VPCConfig.Timeout (VpcConfig config) = VPCConfig.Timeout (VpcConfig parsed)) \<and>
    (Route53Config.Timeout (Route53Config parsed) \<noteq> None \<longrightarrow>
       Route53Config.Timeout (Route53Config config) =
       Route53Config.Timeout (Route53Config parsed)) \<and>
    (EC2Config.Timeout (EC2Config parsed) \<noteq> None \<longrightarrow>
       EC2Config.Timeout (EC2Config config) = EC2Config.Timeout (EC2Config parsed)) \<and>
    (CacheTTL (RdsConfig parsed) \<noteq> None \<and> CacheTTL (VpcConfig parsed) \<noteq> None \<and>
     CacheTTL (Route53Config parsed) \<noteq> None \<and> CacheTTL (EC2Config parsed) \<noteq> None \<and>
     Interval (RdsConfig parsed) \<noteq> None \<and> Interval (VpcConfig parsed) \<noteq> None \<and>
     Interval (Route53Config parsed) \<noteq> None \<and> Interval (EC2Config parsed) \<noteq> None \<and>
     VPCConfig.Timeout (VpcConfig parsed) \<noteq> None \<and>
     Route53Config.Timeout (Route53Config parsed) \<noteq> None \<and>
     EC2Config.Timeout (EC2Config parsed) \<noteq> None \<longrightarrow> config = parsed)"
proof -
  have l: "fst (loadExporterConfiguration w configFile) = Inr (applyDefaults parsed)"
    using assms by (simp add: load_readable)
  have keep: "\<And>p d. p \<noteq> None \<Longrightarrow> orDefault p d = p"
    by (auto simp add: orDefault_def)
  show ?thesis
    unfolding l by (simp add: applyDefaults_closed keep)
qed

theorem load_frame_witness:
  "readFile sampleWorld CONFIG_FILE_PATH = Some sampleYaml \<and>
   fst (yamlUnmarshal sampleWorld sampleYaml zeroConfig) = sampleParsed \<and>
   Interval (VpcConfig sampleParsed) \<noteq> None \<and>
   (\<exists>config. fst (loadExporterConfiguration sampleWorld CONFIG_FILE_PATH) = Inr config \<and>
      Enabled (VpcConfig config) \<and>
      \<not> Enabled (RdsConfig config) \<and>
      VPCConfig.Regions (VpcConfig config) = [''us-east-1'', ''us-west-2''] \<and>
      Interval (VpcConfig config) = Some (1 * Second))"
proof -
  have r: "readFile sampleWorld CONFIG_FILE_PATH = Some sampleYaml"
    by (simp add: sampleWorld_simps)
  have p: "fst (yamlUnmarshal sampleWorld sampleYaml zeroConfig) = sampleParsed"
    by (simp add: sampleWorld_simps)
  have i: "Interval (VpcConfig sampleParsed) \<noteq> None"
    by (simp add: sampleParsed_def zeroConfig_def)
  from load_frame [OF r p] r p i show ?thesis
    by (elim exE conjE) (simp add: sampleParsed_def zeroConfig_def)
qed

subsection \<open>Claims about setupCollectors and run\<close>

text \<open>
  C10. When the file can be read and the decoder returns an error and leaves the
  configuration as it found it, the load returns the zero configuration with the
  defaults: no kind is enabled. \<^verbatim>\<open>setupCollectors\<close> then returns no collector and no
  error, and all it has done is to read the file: no session, no refresh loop.
\<close>

theorem load_undecodable:
  assumes "readFile w configFile = Some file"
    and "yamlUnmarshal w file zeroConfig = (zeroConfig, Some yerr)"
  shows "fst (loadExporterConfiguration w configFile) = Inr (applyDefaults zeroConfig) \<and>
    applyDefaults zeroConfig =
      \<lparr>RdsConfig = \<lparr>Enabled = False, Interval = Some (15 * Second),
                    CacheTTL = Some (35 * Second), RDSConfig.Regions = []\<rparr>,
       VpcConfig = \<lparr>Enabled = False, Interval = Some (15 * Second),
                    CacheTTL = Some (35 * Second), VPCConfig.Timeout = Some (10 * Second),
                    VPCConfig.Regions = []\<rparr>,
       Route53Config = \<lparr>Enabled = False, Interval = Some (15 * Second),
                        CacheTTL = Some (35 * Second),
                        Route53Config.Timeout = Some (10 * Second), Region = []\<rparr>,
       EC2Config = \<lparr>Enabled = False, Interval = Some (15 * Second),
                    CacheTTL = Some (35 * Second), EC2Config.Timeout = Some (10 * Second),
                    EC2Config.Regions = []\<rparr>\<rparr> \<and>
    (\<forall>k. \<not> kindEnabled (applyDefaults zeroConfig) k) \<and>
    setupCollectors w configFile = (Returns (Inr []), [ReadFile configFile]) \<and>
    loopKinds (snd (setupCollectors w configFile)) = []"
proof -
  have l: "loadExporterConfiguration w configFile =
             (Inr (applyDefaults zeroConfig), [ReadFile configFile])"
    using assms by (simp add: load_readable)
  have z: "applyDefaults zeroConfig =
      \<lparr>RdsConfig = \<lparr>Enabled = False, Interval = Some (15 * Second),
                    CacheTTL = Some (35 * Second), RDSConfig.Regions = []\<rparr>,
       VpcConfig = \<lparr>Enabled = False, Interval = Some (15 * Second),
                    CacheTTL = Some (35 * Second), VPCConfig.Timeout = Some (10 * Second),
                    VPCConfig.Regions = []\<rparr>,
       Route53Config = \<lparr>Enabled = False, Interval = Some (15 * Second),
                        CacheTTL = Some (35 * Second),
                        Route53Config.Timeout = Some (10 * Second), Region = []\<rparr>,
       EC2Config = \<lparr>Enabled = False, Interval = Some (15 * Second),
                    CacheTTL = Some (35 * Second), EC2Config.Timeout = Some (10 * Second),
                    EC2Config.Regions = []\<rparr>\<rparr>"
    by (simp add: applyDefaults_closed zeroConfig_def orDefault_simps)
  have e: "\<forall>k. \<not> kindEnabled (applyDefaults zeroConfig) k"
  proof
    fix k show "\<not> kindEnabled (applyDefaults zeroConfig) k"
      by (cases k) (simp_all add: z)
  qed
  have s: "setupCollectors w configFile = (Returns (Inr []), [ReadFile configFile])"
    unfolding setupCollectors_def l
    by (simp add: z setupVPC_def setupRDS_def setupEC2_def setupRoute53_def andThen_def)
  show ?thesis
    using l z e s by simp
qed

theorem load_undecodable_witness:
  "readFile brokenWorld CONFIG_FILE_PATH = Some ''{{'' \<and>
   yamlUnmarshal brokenWorld ''{{'' zeroConfig = (zeroConfig, Some YamlSyntaxError) \<and>
   fst (loadExporterConfiguration brokenWorld CONFIG_FILE_PATH) = Inr (applyDefaults zeroConfig) \<and>
   \<not> kindEnabled (applyDefaults zeroConfig) VPC \<and>
   setupCollectors brokenWorld CONFIG_FILE_PATH =
     (Returns (Inr []), [ReadFile ''./aws-resource-exporter-config.yaml''])"
proof -
  have r: "readFile brokenWorld CONFIG_FILE_PATH = Some ''{{''"
    by (simp add: brokenWorld_simps)
  have u: "yamlUnmarshal brokenWorld ''{{'' zeroConfig = (zeroConfig, Some YamlSyntaxError)"
    by (simp add: brokenWorld_simps)
  from load_undecodable [OF r u] r u show ?thesis
    by (simp add: CONFIG_FILE_PATH_def)
qed

subsection \<open>Event lists and sequencing\<close>

lemma loopKinds_append: "loopKinds (a @ b) = loopKinds a @ loopKinds b"
  by (induction a rule: loopKinds.induct) (simp_all split: option.split)

lemma collectorKinds_append: "collectorKinds (a @ b) = collectorKinds a @ collectorKinds b"
  by (induction a) (simp_all split: option.split)

lemma registered_append: "registered (a @ b) = registered a @ registered b"
  by (induction a rule: registered.induct) simp_all

lemma filesRead_append: "filesRead (a @ b) = filesRead a @ filesRead b"
  by (induction a rule: filesRead.induct) simp_all

lemma handlersRegistered_append:
  "handlersRegistered (a @ b) = handlersRegistered a @ handlersRegistered b"
  by (induction a rule: handlersRegistered.induct) simp_all

lemma listenCalls_append: "listenCalls (a @ b) = listenCalls a @ listenCalls b"
  by (induction a rule: listenCalls.induct) simp_all

lemma setupEvents_quiet:
  assumes "list_all setupEvent tr"
  shows "registered tr = []" and "filesRead tr = []"
    and "handlersRegistered tr = []" and "listenCalls tr = []"
  using assms by (induction tr rule: registered.induct) simp_all

lemma fst_andThen:
  "fst (andThen m f) =
     (case fst m of Returns x \<Rightarrow> fst (f x) | Panics \<Rightarrow> Panics | Blocks \<Rightarrow> Blocks)"
  by (cases m) (simp add: andThen_def split: outcome.split prod.split)

lemma snd_andThen:
  "snd (andThen m f) =
     (case fst m of Returns x \<Rightarrow> snd m @ snd (f x) | Panics \<Rightarrow> snd m | Blocks \<Rightarrow> snd m)"
  by (cases m) (simp add: andThen_def split: outcome.split prod.split)

lemma andThen_Returns:
  "fst (andThen m f) = Returns y \<Longrightarrow> \<exists>x. fst m = Returns x \<and> fst (f x) = Returns y"
  by (simp add: fst_andThen split: outcome.splits)

lemma andThen_Panics_first: "fst m = Panics \<Longrightarrow> fst (andThen m f) = Panics"
  by (simp add: fst_andThen)

lemma andThen_Panics_later:
  "fst m \<noteq> Blocks \<Longrightarrow> (\<And>x. fst (f x) = Panics) \<Longrightarrow> fst (andThen m f) = Panics"
  by (simp add: fst_andThen split: outcome.splits)

lemma andThen_not_Blocks:
  "fst m \<noteq> Blocks \<Longrightarrow> (\<And>x. fst (f x) \<noteq> Blocks) \<Longrightarrow> fst (andThen m f) \<noteq> Blocks"
  by (simp add: fst_andThen split: outcome.splits)

lemma andThen_list_all:
  "list_all P (snd m) \<Longrightarrow> (\<And>x. list_all P (snd (f x))) \<Longrightarrow> list_all P (snd (andThen m f))"
  by (simp add: snd_andThen split: outcome.splits)

lemma andThen_loopKinds:
  "set (loopKinds (snd m)) \<subseteq> E \<Longrightarrow> (\<And>x. set (loopKinds (snd (f x))) \<subseteq> E) \<Longrightarrow>
   set (loopKinds (snd (andThen m f))) \<subseteq> E"
  by (simp add: snd_andThen loopKinds_append split: outcome.splits)

subsection \<open>The session loop and the four blocks\<close>

lemma regionSessions_events: "list_all setupEvent (snd (regionSessions w regions sessions))"
  by (induction regions arbitrary: sessions)
     (simp_all add: snd_andThen split: option.split)

lemma regionSessions_loopKinds: "loopKinds (snd (regionSessions w regions sessions)) = []"
  by (induction regions arbitrary: sessions)
     (simp_all add: snd_andThen split: option.split)

lemma regionSessions_not_Blocks: "fst (regionSessions w regions sessions) \<noteq> Blocks"
  by (induction regions arbitrary: sessions)
     (simp_all add: fst_andThen split: option.split)

lemma regionSessions_Panics:
  "region \<in> set regions \<Longrightarrow> newSession w region = None \<Longrightarrow>
   fst (regionSessions w regions sessions) = Panics"
  by (induction regions arbitrary: sessions)
     (auto simp add: fst_andThen split: option.split)

lemma setupVPC_facts:
  "list_all setupEvent (snd (setupVPC w config cs))"
  "fst (setupVPC w config cs) \<noteq> Blocks"
  "set (loopKinds (snd (setupVPC w config cs))) \<subseteq> {k. kindEnabled config k}"
  "fst (setupVPC w config cs) = Returns cs' \<Longrightarrow>
     set (collectorKinds cs') \<subseteq> set (collectorKinds cs) \<union> {k. kindEnabled config k}"
  by (auto simp add: setupVPC_def fst_andThen snd_andThen Let_def regionSessions_events
      regionSessions_not_Blocks regionSessions_loopKinds loopKinds_append collectorKinds_append
      split: outcome.splits if_splits)

lemma setupRDS_facts:
  "list_all setupEvent (snd (setupRDS w config cs))"
  "fst (setupRDS w config cs) \<noteq> Blocks"
  "set (loopKinds (snd (setupRDS w config cs))) \<subseteq> {k. kindEnabled config k}"
  "fst (setupRDS w config cs) = Returns cs' \<Longrightarrow>
     set (collectorKinds cs') \<subseteq> set (collectorKinds cs) \<union> {k. kindEnabled config k}"
  by (auto simp add: setupRDS_def fst_andThen snd_andThen Let_def regionSessions_events
      regionSessions_not_Blocks regionSessions_loopKinds loopKinds_append collectorKinds_append
      split: outcome.splits if_splits)

lemma setupEC2_facts:
  "list_all setupEvent (snd (setupEC2 w config cs))"
  "fst (setupEC2 w config cs) \<noteq> Blocks"
  "set (loopKinds (snd (setupEC2 w config cs))) \<subseteq> {k. kindEnabled config k}"
  "fst (setupEC2 w config cs) = Returns cs' \<Longrightarrow>
     set (collectorKinds cs') \<subseteq> set (collectorKinds cs) \<union> {k. kindEnabled config k}"
  by (auto simp add: setupEC2_def fst_andThen snd_andThen Let_def regionSessions_events
      regionSessions_not_Blocks regionSessions_loopKinds loopKinds_append collectorKinds_append
      split: outcome.splits if_splits)

lemma setupRoute53_facts:
  "list_all setupEvent (snd (setupRoute53 w config cs))"
  "fst (setupRoute53 w config cs) \<noteq> Blocks"
  "set (loopKinds (snd (setupRoute53 w config cs))) \<subseteq> {k. kindEnabled config k}"
  "fst (setupRoute53 w config cs) = Returns cs' \<Longrightarrow>
     set (collectorKinds cs') \<subseteq> set (collectorKinds cs) \<union> {k. kindEnabled config k}"
  by (auto simp add: setupRoute53_def Let_def collectorKinds_append
      split: option.splits if_splits)

lemma setupVPC_Panics:
  "Enabled (VpcConfig config) \<Longrightarrow> region \<in> set (VPCConfig.Regions (VpcConfig config)) \<Longrightarrow>
   newSession w region = None \<Longrightarrow> fst (setupVPC w config cs) = Panics"
  by (simp add: setupVPC_def fst_andThen regionSessions_Panics)

lemma setupRDS_Panics:
  "Enabled (RdsConfig config) \<Longrightarrow> region \<in> set (RDSConfig.Regions (RdsConfig config)) \<Longrightarrow>
   newSession w region = None \<Longrightarrow> fst (setupRDS w config cs) = Panics"
  by (simp add: setupRDS_def fst_andThen regionSessions_Panics)

lemma setupEC2_Panics:
  "Enabled (EC2Config config) \<Longrightarrow> region \<in> set (EC2Config.Regions (EC2Config config)) \<Longrightarrow>
   newSession w region = None \<Longrightarrow> fst (setupEC2 w config cs) = Panics"
  by (simp add: setupEC2_def fst_andThen regionSessions_Panics)

lemma setupRoute53_Panics:
  "Enabled (Route53Config config) \<Longrightarrow> newSession w (Region (Route53Config config)) = None \<Longrightarrow>
   fst (setupRoute53 w config cs) = Panics"
  by (simp add: setupRoute53_def)

subsection \<open>setupCollectors and run, by cases\<close>

lemma setupCollectors_loaded:
  assumes "fst (loadExporterConfiguration w configFile) = Inr config"
  shows "setupCollectors w configFile =
    andThen (Returns (), [ReadFile configFile]) (\<lambda>_.
    andThen (setupVPC w config []) (\<lambda>collectors.
    andThen (setupRDS w config collectors) (\<lambda>collectors.
    andThen (setupEC2 w config collectors) (\<lambda>collectors.
    andThen (setupRoute53 w config collectors) (\<lambda>collectors.
      (Returns (Inr collectors), []))))))"
  using assms
  by (cases "readFile w configFile")
     (simp_all add: setupCollectors_def loadExporterConfiguration_def)

lemma setupCollectors_failed:
  assumes "readFile w configFile = None"
  shows "setupCollectors w configFile =
    (Returns (Inl (''Could not load configuration file: '' @ configFile)), [ReadFile configFile])"
  using assms by (simp add: setupCollectors_def load_unreadable)

lemma load_cases:
  "(\<exists>config. fst (loadExporterConfiguration w configFile) = Inr config) \<or>
   readFile w configFile = None"
  by (cases "readFile w configFile") (simp_all add: load_readable)

lemma setupCollectors_trace:
  "\<exists>tr. snd (setupCollectors w configFile) = ReadFile configFile # tr \<and> list_all setupEvent tr"
proof -
  from load_cases [of w configFile] show ?thesis
  proof
    assume "readFile w configFile = None"
    then show ?thesis by (simp add: setupCollectors_failed)
  next
    assume "\<exists>config. fst (loadExporterConfiguration w configFile) = Inr config"
    then obtain config where c: "fst (loadExporterConfiguration w configFile) = Inr config" ..
    let ?rest = "andThen (setupVPC w config []) (\<lambda>collectors.
      andThen (setupRDS w config collectors) (\<lambda>collectors.
      andThen (setupEC2 w config collectors) (\<lambda>collectors.
      andThen (setupRoute53 w config collectors) (\<lambda>collectors.
        (Returns (Inr collectors) :: (error + collector list) outcome, [])))))"
    have "list_all setupEvent (snd ?rest)"
      by (intro andThen_list_all setupVPC_facts setupRDS_facts setupEC2_facts
          setupRoute53_facts) simp
    moreover have "snd (setupCollectors w configFile) = ReadFile configFile # snd ?rest"
      by (simp add: setupCollectors_loaded [OF c] snd_andThen)
    ultimately show ?thesis by simp
  qed
qed

lemma setupCollectors_quiet:
  "registered (snd (setupCollectors w configFile)) = []"
  "filesRead (snd (setupCollectors w configFile)) = [configFile]"
  "handlersRegistered (snd (setupCollectors w configFile)) = []"
  "listenCalls (snd (setupCollectors w configFile)) = []"
  using setupCollectors_trace [of w configFile] by (auto simp add: setupEvents_quiet)

lemma run_fst:
  "fst (run w) =
    (case fst (setupCollectors w (configFileOf w)) of
       Returns (Inl err) \<Rightarrow> Returns 1
     | Returns (Inr cs) \<Rightarrow>
         (case serving w of Some TermSignal \<Rightarrow> Returns 0 | Some ServerFailed \<Rightarrow> Returns 1
          | None \<Rightarrow> Blocks)
     | Panics \<Rightarrow> Panics
     | Blocks \<Rightarrow> Blocks)"
  by (simp add: run_def Let_def fst_andThen
      split: outcome.split sum.split option.split serve_event.split)

lemma run_snd:
  "snd (run w) =
    (case fst (setupCollectors w (configFileOf w)) of
       Returns (Inr cs) \<Rightarrow>
         snd (setupCollectors w (configFileOf w)) @
         [MustRegister (cs @ [NewExporterMetrics]), Handle (metricsPath w), Handle ''/'',
          GoListenAndServe (listenAddress w)]
     | _ \<Rightarrow> snd (setupCollectors w (configFileOf w)))"
  by (simp add: run_def Let_def snd_andThen
      split: outcome.split sum.split option.split serve_event.split)

lemma setupCollectors_loopKinds:
  assumes "fst (loadExporterConfiguration w configFile) = Inr config"
  shows "set (loopKinds (snd (setupCollectors w configFile))) \<subseteq> {k. kindEnabled config k}"
  unfolding setupCollectors_loaded [OF assms]
  by (intro andThen_loopKinds setupVPC_facts setupRDS_facts setupEC2_facts setupRoute53_facts)
     simp_all

lemma andThen_ReturnsE:
  assumes "fst (andThen m f) = Returns y"
  obtains x where "fst m = Returns x" and "fst (f x) = Returns y"
  using assms by (auto dest: andThen_Returns)

lemma setupCollectors_kinds:
  assumes "fst (loadExporterConfiguration w configFile) = Inr config"
    and "fst (setupCollectors w configFile) = Returns (Inr cs)"
  shows "set (collectorKinds cs) \<subseteq> {k. kindEnabled config k}"
  using assms(2) [unfolded setupCollectors_loaded [OF assms(1)]]
proof (elim andThen_ReturnsE)
  fix u c1 c2 c3 c4
  assume 1: "fst (setupVPC w config []) = Returns c1"
    and 2: "fst (setupRDS w config c1) = Returns c2"
    and 3: "fst (setupEC2 w config c2) = Returns c3"
    and 4: "fst (setupRoute53 w config c3) = Returns c4"
    and 5: "fst (Returns (Inr c4 :: error + collector list), [] :: event list) = Returns (Inr cs)"
  from 5 have "c4 = cs" by simp
  with setupVPC_facts(4) [OF 1] setupRDS_facts(4) [OF 2] setupEC2_facts(4) [OF 3]
    setupRoute53_facts(4) [OF 4]
  show ?thesis by auto
qed

lemma setupCollectors_Panics:
  assumes "fst (loadExporterConfiguration w configFile) = Inr config"
    and "kindEnabled config k" and "region \<in> set (kindRegions config k)"
    and "newSession w region = None"
  shows "fst (setupCollectors w configFile) = Panics"
proof -
  note nb = setupVPC_facts(2) setupRDS_facts(2) setupEC2_facts(2)
  show ?thesis
  proof (cases k)
    case VPC
    with assms have "\<And>cs. fst (setupVPC w config cs) = Panics"
      by (simp add: setupVPC_Panics)
    then show ?thesis
      unfolding setupCollectors_loaded [OF assms(1)]
      by (intro andThen_Panics_later andThen_Panics_first) simp_all
  next
    case RDS
    with assms have "\<And>cs. fst (setupRDS w config cs) = Panics"
      by (simp add: setupRDS_Panics)
    then show ?thesis
      unfolding setupCollectors_loaded [OF assms(1)]
      by (intro andThen_Panics_later [of "setupVPC w config []"]
          andThen_Panics_later [of "(Returns (), _)"] andThen_Panics_first nb) simp_all
  next
    case EC2
    with assms have "\<And>cs. fst (setupEC2 w config cs) = Panics"
      by (simp add: setupEC2_Panics)
    then show ?thesis
      unfolding setupCollectors_loaded [OF assms(1)]
      by (intro andThen_Panics_later [of "setupVPC w config []"]
          andThen_Panics_later [of "setupRDS w config _"]
          andThen_Panics_later [of "(Returns (), _)"] andThen_Panics_first nb) simp_all
  next
    case Route53
    with assms have "\<And>cs. fst (setupRoute53 w config cs) = Panics"
      by (simp add: setupRoute53_Panics)
    then show ?thesis
      unfolding setupCollectors_loaded [OF assms(1)]
      by (intro andThen_Panics_later [of "setupVPC w config []"]
          andThen_Panics_later [of "setupRDS w config _"]
          andThen_Panics_later [of "setupEC2 w config _"]
          andThen_Panics_later [of "(Returns (), _)"] andThen_Panics_first nb) simp_all
  qed
qed

lemma failingRegionWorld_simps:
  "environ failingRegionWorld = (\<lambda>_. None)"
  "readFile failingRegionWorld CONFIG_FILE_PATH = Some sampleYaml"
  "yamlUnmarshal failingRegionWorld sampleYaml config = (sampleParsed, None)"
  "newSession failingRegionWorld ''us-west-2'' = None"
  by (simp_all add: failingRegionWorld_def sampleWorld_def)

lemma elsewhereWorld_simps:
  "environ elsewhereWorld = (\<lambda>_. None)"
  "executable elsewhereWorld = ''/opt/exporter/aws-resource-exporter''"
  "readFile elsewhereWorld ''/opt/exporter/aws-resource-exporter-config.yaml'' = Some sampleYaml"
  "readFile elsewhereWorld ''./aws-resource-exporter-config.yaml'' = None"
  by (simp_all add: elsewhereWorld_def sampleWorld_def)

lemma configFileOf_unset: "environ w = (\<lambda>_. None) \<Longrightarrow> configFileOf w = CONFIG_FILE_PATH"
  by (simp add: configFileOf_def Getenv_def)

text \<open>
  C3. For a kind that the loaded configuration does not enable, \<^verbatim>\<open>setupCollectors\<close>
  starts no refresh loop of that kind, whether it returns or panics, and the collectors
  it returns hold none of that kind. So \<^verbatim>\<open>run\<close>, which calls it with its own choice
  of file, starts no such loop and hands no such collector to the registry.
\<close>

theorem disabled_kind_not_set_up:
  assumes "fst (loadExporterConfiguration w configFile) = Inr config"
    and "\<not> kindEnabled config k"
  shows "k \<notin> set (loopKinds (snd (setupCollectors w configFile))) \<and>
    (\<forall>cs. fst (setupCollectors w configFile) = Returns (Inr cs) \<longrightarrow>
       k \<notin> set (collectorKinds cs)) \<and>
    (configFile = configFileOf w \<longrightarrow>
       k \<notin> set (loopKinds (snd (run w))) \<and>
       k \<notin> set (collectorKinds (registered (snd (run w)))))"
proof -
  have loops: "k \<notin> set (loopKinds (snd (setupCollectors w configFile)))"
    using setupCollectors_loopKinds [OF assms(1)] assms(2) by auto
  have colls: "\<And>cs. fst (setupCollectors w configFile) = Returns (Inr cs) \<Longrightarrow>
      k \<notin> set (collectorKinds cs)"
    using setupCollectors_kinds [OF assms(1)] assms(2) by auto
  have "k \<notin> set (loopKinds (snd (run w))) \<and>
        k \<notin> set (collectorKinds (registered (snd (run w))))"
    if "configFile = configFileOf w"
    using loops colls that
    by (cases "fst (setupCollectors w (configFileOf w))")
       (auto simp add: run_snd loopKinds_append registered_append collectorKinds_append
          setupCollectors_quiet split: sum.splits)
  with loops colls show ?thesis by blast
qed

theorem disabled_kind_not_set_up_witness:
  "(\<exists>config. fst (loadExporterConfiguration sampleWorld CONFIG_FILE_PATH) = Inr config \<and>
      kindEnabled config VPC \<and> \<not> kindEnabled config RDS) \<and>
   CONFIG_FILE_PATH = configFileOf sampleWorld \<and>
   RDS \<notin> set (loopKinds (snd (setupCollectors sampleWorld CONFIG_FILE_PATH))) \<and>
   RDS \<notin> set (loopKinds (snd (run sampleWorld))) \<and>
   RDS \<notin> set (collectorKinds (registered (snd (run sampleWorld)))) \<and>
   loopKinds (snd (run sampleWorld)) = [VPC]"
proof -
  have l: "fst (loadExporterConfiguration sampleWorld CONFIG_FILE_PATH) =
           Inr (applyDefaults sampleParsed)"
    by (simp add: load_readable sampleWorld_simps)
  have d: "\<not> kindEnabled (applyDefaults sampleParsed) RDS"
    by (simp add: applyDefaults_closed sampleParsed_def zeroConfig_def)
  have e: "kindEnabled (applyDefaults sampleParsed) VPC"
    by (simp add: applyDefaults_closed sampleParsed_def zeroConfig_def)
  have c: "CONFIG_FILE_PATH = configFileOf sampleWorld"
    by (simp add: configFileOf_unset sampleWorld_simps)
  have s: "loopKinds (snd (setupCollectors sampleWorld CONFIG_FILE_PATH)) = [VPC]"
    by (simp add: setupCollectors_loaded [OF l] snd_andThen fst_andThen setupVPC_def
        setupRDS_def setupEC2_def setupRoute53_def applyDefaults_closed sampleParsed_def
        zeroConfig_def sampleWorld_simps loopKinds_append Let_def)
  have r: "loopKinds (snd (run sampleWorld)) = [VPC]"
    using s by (simp add: run_snd c [symmetric] loopKinds_append
        split: outcome.split sum.split)
  from disabled_kind_not_set_up [OF l d] l d e c r show ?thesis
    by simp
qed

text \<open>
  C7. When the file \<^verbatim>\<open>run\<close> chooses cannot be read, \<^verbatim>\<open>setupCollectors\<close> returns an
  error and all \<^verbatim>\<open>run\<close> has done is to try to read it. Whenever \<^verbatim>\<open>setupCollectors\<close>
  returns an error, \<^verbatim>\<open>run\<close> returns 1 and has registered no collector and no handler
  and has not started the server.
\<close>

theorem missing_config_exits_1:
  "(readFile w (configFileOf w) = None \<longrightarrow>
      (\<exists>err. fst (setupCollectors w (configFileOf w)) = Returns (Inl err)) \<and>
      run w = (Returns 1, [ReadFile (configFileOf w)])) \<and>
   ((\<exists>err. fst (setupCollectors w (configFileOf w)) = Returns (Inl err)) \<longrightarrow>
      fst (run w) = Returns 1 \<and>
      registered (snd (run w)) = [] \<and>
      handlersRegistered (snd (run w)) = [] \<and>
      listenCalls (snd (run w)) = [])"
proof (intro conjI impI)
  assume "readFile w (configFileOf w) = None"
  then have s: "setupCollectors w (configFileOf w) =
      (Returns (Inl (''Could not load configuration file: '' @ configFileOf w)),
       [ReadFile (configFileOf w)])"
    by (rule setupCollectors_failed)
  then show "\<exists>err. fst (setupCollectors w (configFileOf w)) = Returns (Inl err)"
    by simp
  show "run w = (Returns 1, [ReadFile (configFileOf w)])"
    by (rule prod_eqI) (simp_all add: run_fst run_snd s)
next
  assume "\<exists>err. fst (setupCollectors w (configFileOf w)) = Returns (Inl err)"
  then obtain err where e: "fst (setupCollectors w (configFileOf w)) = Returns (Inl err)" ..
  show "fst (run w) = Returns 1"
    by (simp add: run_fst e)
  show "registered (snd (run w)) = []"
    by (simp add: run_snd e setupCollectors_quiet)
  show "handlersRegistered (snd (run w)) = []"
    by (simp add: run_snd e setupCollectors_quiet)
  show "listenCalls (snd (run w)) = []"
    by (simp add: run_snd e setupCollectors_quiet)
qed

theorem missing_config_exits_1_witness:
  "readFile missingWorld (configFileOf missingWorld) = None \<and>
   configFileOf missingWorld = ''./aws-resource-exporter-config.yaml'' \<and>
   (\<exists>err. fst (setupCollectors missingWorld (configFileOf missingWorld)) = Returns (Inl err)) \<and>
   run missingWorld = (Returns 1, [ReadFile ''./aws-resource-exporter-config.yaml'']) \<and>
   handlersRegistered (snd (run missingWorld)) = [] \<and>
   listenCalls (snd (run missingWorld)) = []"
proof -
  have c: "configFileOf missingWorld = ''./aws-resource-exporter-config.yaml''"
    by (simp add: configFileOf_unset missingWorld_simps CONFIG_FILE_PATH_def)
  have r: "readFile missingWorld (configFileOf missingWorld) = None"
    by (simp add: missingWorld_simps)
  from missing_config_exits_1 [of missingWorld] r c show ?thesis
    by simp
qed

text \<open>
  C8, as the code has it. \<^verbatim>\<open>run\<close> reads exactly one file: the value of
  \<^verbatim>\<open>AWS_RESOURCE_EXPORTER_CONFIG_FILE\<close> when the variable is set and not empty, and
  otherwise the relative name \<^verbatim>\<open>./aws-resource-exporter-config.yaml\<close>, which does not
  depend on where the binary is.
\<close>

theorem config_file_choice:
  "filesRead (snd (run w)) =
     [case environ w ''AWS_RESOURCE_EXPORTER_CONFIG_FILE'' of
        None \<Rightarrow> CONFIG_FILE_PATH
      | Some path \<Rightarrow> if path = [] then CONFIG_FILE_PATH else path] \<and>
   CONFIG_FILE_PATH = ''./aws-resource-exporter-config.yaml''"
proof -
  have "filesRead (snd (run w)) = [configFileOf w]"
    by (cases "fst (setupCollectors w (configFileOf w))")
       (simp_all add: run_snd filesRead_append setupCollectors_quiet split: sum.split)
  then show ?thesis
    by (simp add: configFileOf_def Getenv_def CONFIG_FILE_PATH_def split: option.split)
qed

theorem config_file_choice_witness:
  "environ overrideWorld ''AWS_RESOURCE_EXPORTER_CONFIG_FILE'' = Some ''/etc/exporter.yaml'' \<and>
   filesRead (snd (run overrideWorld)) = [''/etc/exporter.yaml''] \<and>
   environ sampleWorld ''AWS_RESOURCE_EXPORTER_CONFIG_FILE'' = None \<and>
   filesRead (snd (run sampleWorld)) = [''./aws-resource-exporter-config.yaml'']"
  using config_file_choice [of overrideWorld] config_file_choice [of sampleWorld]
  by (simp add: overrideWorld_simps sampleWorld_simps)

text \<open>
  C8 as stated fails. In \<open>elsewhereWorld\<close> the variable is not set and the configuration
  file lies next to the binary, where the specification places the default; \<^verbatim>\<open>run\<close>
  asks for the relative name instead, finds nothing, and returns 1.
\<close>

theorem default_path_counterexample:
  "environ elsewhereWorld ''AWS_RESOURCE_EXPORTER_CONFIG_FILE'' = None \<and>
   executable elsewhereWorld = ''/opt/exporter/aws-resource-exporter'' \<and>
   specConfigFileOf elsewhereWorld = ''/opt/exporter/aws-resource-exporter-config.yaml'' \<and>
   readFile elsewhereWorld (specConfigFileOf elsewhereWorld) = Some sampleYaml \<and>
   run elsewhereWorld = (Returns 1, [ReadFile ''./aws-resource-exporter-config.yaml'']) \<and>
   filesRead (snd (run elsewhereWorld)) \<noteq> [specConfigFileOf elsewhereWorld]"
proof -
  have s: "specConfigFileOf elsewhereWorld = ''/opt/exporter/aws-resource-exporter-config.yaml''"
    by (simp add: specConfigFileOf_def Getenv_def dirname_def elsewhereWorld_simps)
  have c: "configFileOf elsewhereWorld = ''./aws-resource-exporter-config.yaml''"
    by (simp add: configFileOf_unset elsewhereWorld_simps CONFIG_FILE_PATH_def)
  have r: "run elsewhereWorld = (Returns 1, [ReadFile ''./aws-resource-exporter-config.yaml''])"
    by (rule prod_eqI)
       (simp_all add: run_fst run_snd c setupCollectors_failed elsewhereWorld_simps)
  show ?thesis
    by (simp add: s r elsewhereWorld_simps)
qed

text \<open>
  C9. When a kind is enabled in the loaded configuration and no session can be made for
  one of its regions, \<^verbatim>\<open>setupCollectors\<close> panics and so does \<^verbatim>\<open>run\<close>: it does not
  return a list without that kind. Nothing has been registered by then, neither
  collector nor handler, and the server has not been started.
\<close>

theorem session_failure_panics:
  assumes "fst (loadExporterConfiguration w (configFileOf w)) = Inr config"
    and "kindEnabled config k"
    and "region \<in> set (kindRegions config k)"
    and "newSession w region = None"
  shows "fst (setupCollectors w (configFileOf w)) = Panics \<and>
    fst (run w) = Panics \<and>
    registered (snd (run w)) = [] \<and>
    handlersRegistered (snd (run w)) = [] \<and>
    listenCalls (snd (run w)) = []"
proof -
  have p: "fst (setupCollectors w (configFileOf w)) = Panics"
    using assms by (rule setupCollectors_Panics)
  then show ?thesis
    by (simp add: run_fst run_snd setupCollectors_quiet)
qed

theorem session_failure_panics_witness:
  "(\<exists>config. fst (loadExporterConfiguration failingRegionWorld
        (configFileOf failingRegionWorld)) = Inr config \<and>
      kindEnabled config VPC \<and> ''us-west-2'' \<in> set (kindRegions config VPC)) \<and>
   newSession failingRegionWorld ''us-west-2'' = None \<and>
   fst (run failingRegionWorld) = Panics \<and>
   handlersRegistered (snd (run failingRegionWorld)) = [] \<and>
   listenCalls (snd (run failingRegionWorld)) = []"
proof -
  have c: "configFileOf failingRegionWorld = CONFIG_FILE_PATH"
    by (simp add: configFileOf_unset failingRegionWorld_simps)
  have l: "fst (loadExporterConfiguration failingRegionWorld (configFileOf failingRegionWorld)) =
           Inr (applyDefaults sampleParsed)"
    by (simp add: c load_readable failingRegionWorld_simps)
  have e: "kindEnabled (applyDefaults sampleParsed) VPC"
    by (simp add: applyDefaults_closed sampleParsed_def zeroConfig_def)
  have m: "''us-west-2'' \<in> set (kindRegions (applyDefaults sampleParsed) VPC)"
    by (simp add: applyDefaults_closed sampleParsed_def zeroConfig_def)
  have n: "newSession failingRegionWorld ''us-west-2'' = None"
    by (simp add: failingRegionWorld_simps)
  from session_failure_panics [OF l e m n] l e m n show ?thesis
    by simp
qed


end
